theory Spec2Isabelle
  imports Complex_Main
begin

section \<open>Overview\<close>

text \<open>
  A model of the vector store (\<^verbatim>\<open>src/lib/vector-store.ts\<close>) and of the retrieval
  pipeline (\<^verbatim>\<open>src/lib/rag-pipeline.ts\<close>) of the application, followed by the properties
  of the specification, C1 to C10.

  The functions keep their names and the order of their statements. An \<^verbatim>\<open>async\<close>
  function is modelled as its sequential run: every \<^verbatim>\<open>await\<close> has returned before the
  next statement. The two remote providers are parameters and their requests are
  recorded in a trace; the clock is read twice and the two readings are parameters; an
  exception is a value \<open>Inl e\<close> of a sum type.
\<close>

section \<open>JavaScript numbers\<close>

text \<open>
  A JavaScript number is modelled as a real number or one of the three special values of
  IEEE arithmetic. Finite values are exact reals: binary rounding, overflow and the sign
  of zero are outside the model. Every zero divisor of this program is a square root or
  a length, hence \<open>+0\<close>, so an infinite quotient takes the sign of its dividend.
\<close>

datatype jsnum = Fin real | PosInf | NegInf | NaN

fun jneg :: "jsnum \<Rightarrow> jsnum" where
  "jneg (Fin x) = Fin (- x)"
| "jneg PosInf = NegInf"
| "jneg NegInf = PosInf"
| "jneg NaN = NaN"

fun jadd :: "jsnum \<Rightarrow> jsnum \<Rightarrow> jsnum" where
  "jadd NaN _ = NaN"
| "jadd _ NaN = NaN"
| "jadd (Fin x) (Fin y) = Fin (x + y)"
| "jadd PosInf NegInf = NaN"
| "jadd NegInf PosInf = NaN"
| "jadd PosInf _ = PosInf"
| "jadd NegInf _ = NegInf"
| "jadd (Fin x) PosInf = PosInf"
| "jadd (Fin x) NegInf = NegInf"

definition jsub :: "jsnum \<Rightarrow> jsnum \<Rightarrow> jsnum" where
  "jsub a b = jadd a (jneg b)"

text \<open>The product of an infinity and a finite factor: its sign, or \<open>NaN\<close> at zero.\<close>

definition inf_times :: "bool \<Rightarrow> real \<Rightarrow> jsnum" where
  "inf_times positive y =
     (if y = 0 then NaN else if (0 < y) = positive then PosInf else NegInf)"

fun jmul :: "jsnum \<Rightarrow> jsnum \<Rightarrow> jsnum" where
  "jmul NaN _ = NaN"
| "jmul _ NaN = NaN"
| "jmul (Fin x) (Fin y) = Fin (x * y)"
| "jmul PosInf PosInf = PosInf"
| "jmul PosInf NegInf = NegInf"
| "jmul NegInf PosInf = NegInf"
| "jmul NegInf NegInf = PosInf"
| "jmul PosInf (Fin y) = inf_times True y"
| "jmul NegInf (Fin y) = inf_times False y"
| "jmul (Fin x) PosInf = inf_times True x"
| "jmul (Fin x) NegInf = inf_times False x"

fun jdiv :: "jsnum \<Rightarrow> jsnum \<Rightarrow> jsnum" where
  "jdiv NaN _ = NaN"
| "jdiv _ NaN = NaN"
| "jdiv (Fin x) (Fin y) =
     (if y = 0 then (if x = 0 then NaN else if 0 < x then PosInf else NegInf)
      else Fin (x / y))"
| "jdiv (Fin x) PosInf = Fin 0"
| "jdiv (Fin x) NegInf = Fin 0"
| "jdiv PosInf (Fin y) = (if 0 \<le> y then PosInf else NegInf)"
| "jdiv NegInf (Fin y) = (if 0 \<le> y then NegInf else PosInf)"
| "jdiv _ _ = NaN"

text \<open>
  \<^verbatim>\<open>Math.sqrt\<close>. (The real square root has no code equation: a concrete similarity is
  evaluated by the simplifier, from the roots it needs.)
\<close>

fun jsqrt :: "jsnum \<Rightarrow> jsnum" where
  "jsqrt (Fin x) = (if x < 0 then NaN else Fin (sqrt x))"
| "jsqrt PosInf = PosInf"
| "jsqrt NegInf = NaN"
| "jsqrt NaN = NaN"

text \<open>\<^verbatim>\<open>Math.round\<close>: the nearest integer, a tie going up.\<close>

fun jround :: "jsnum \<Rightarrow> jsnum" where
  "jround (Fin x) = Fin (of_int (round x))"
| "jround v = v"

text \<open>The comparison \<^verbatim>\<open>a > b\<close>: false as soon as one side is \<open>NaN\<close>.\<close>

fun jgt :: "jsnum \<Rightarrow> jsnum \<Rightarrow> bool" where
  "jgt NaN _ = False"
| "jgt _ NaN = False"
| "jgt (Fin x) (Fin y) = (y < x)"
| "jgt PosInf PosInf = False"
| "jgt PosInf _ = True"
| "jgt NegInf _ = False"
| "jgt (Fin x) PosInf = False"
| "jgt (Fin x) NegInf = True"

section \<open>JavaScript strings\<close>

text \<open>
  A string is a list of code units below \<open>U+0100\<close>. In that range the class \<^verbatim>\<open>\s\<close>
  (which is also what \<^verbatim>\<open>trim\<close> removes) holds tab, line feed, vertical tab, form feed,
  carriage return, space and the no-break space; \<^verbatim>\<open>\w\<close> holds the ASCII letters, the
  digits and the underscore.
\<close>

definition is_space :: "char \<Rightarrow> bool" where
  "is_space c \<longleftrightarrow>
     c \<in> set [CHR 0x09, CHR 0x0A, CHR 0x0B, CHR 0x0C, CHR 0x0D, CHR 0x20, CHR 0xA0]"

definition is_word :: "char \<Rightarrow> bool" where
  "is_word c \<longleftrightarrow>
     c \<in> set ''abcdefghijklmnopqrstuvwxyzABCDEFGHIJKLMNOPQRSTUVWXYZ0123456789_''"

definition upper_chars :: "char list" where
  "upper_chars = ''ABCDEFGHIJKLMNOPQRSTUVWXYZ'' @
     [CHR 0xC0, CHR 0xC1, CHR 0xC2, CHR 0xC3, CHR 0xC4, CHR 0xC5, CHR 0xC6, CHR 0xC7,
      CHR 0xC8, CHR 0xC9, CHR 0xCA, CHR 0xCB, CHR 0xCC, CHR 0xCD, CHR 0xCE, CHR 0xCF,
      CHR 0xD0, CHR 0xD1, CHR 0xD2, CHR 0xD3, CHR 0xD4, CHR 0xD5, CHR 0xD6,
      CHR 0xD8, CHR 0xD9, CHR 0xDA, CHR 0xDB, CHR 0xDC, CHR 0xDD, CHR 0xDE]"

definition lower_chars :: "char list" where
  "lower_chars = ''abcdefghijklmnopqrstuvwxyz'' @
     [CHR 0xE0, CHR 0xE1, CHR 0xE2, CHR 0xE3, CHR 0xE4, CHR 0xE5, CHR 0xE6, CHR 0xE7,
      CHR 0xE8, CHR 0xE9, CHR 0xEA, CHR 0xEB, CHR 0xEC, CHR 0xED, CHR 0xEE, CHR 0xEF,
      CHR 0xF0, CHR 0xF1, CHR 0xF2, CHR 0xF3, CHR 0xF4, CHR 0xF5, CHR 0xF6,
      CHR 0xF8, CHR 0xF9, CHR 0xFA, CHR 0xFB, CHR 0xFC, CHR 0xFD, CHR 0xFE]"

definition lower_char :: "char \<Rightarrow> char" where
  "lower_char c = (case map_of (zip upper_chars lower_chars) c of Some l \<Rightarrow> l | None \<Rightarrow> c)"

text \<open>\<^verbatim>\<open>s.toLowerCase()\<close>\<close>

definition toLowerCase :: "string \<Rightarrow> string" where
  "toLowerCase s = map lower_char s"

text \<open>
  \<^verbatim>\<open>s.split(re)\<close> for a regular expression \<open>re\<close> that matches the non-empty runs of a
  character class: the pieces between the runs. A run at either end leaves an empty
  piece there, and the empty string gives one empty piece.
\<close>

function split_on :: "(char \<Rightarrow> bool) \<Rightarrow> string \<Rightarrow> string list" where
  "split_on sep [] = [[]]"
| "split_on sep (c # cs) =
     (if sep c then [] # split_on sep (dropWhile sep cs)
      else (case split_on sep cs of p # ps \<Rightarrow> (c # p) # ps | [] \<Rightarrow> [[c]]))"
  by pat_completeness auto
termination
  by (relation "measure (\<lambda>(sep, s). length s)")
     (auto simp: length_dropWhile_le less_Suc_eq_le)

text \<open>\<^verbatim>\<open>s.split(/\s+/)\<close>\<close>

definition split_ws :: "string \<Rightarrow> string list" where
  "split_ws s = split_on is_space s"

text \<open>\<^verbatim>\<open>s.match(/\b\w+\b/g) || []\<close>: the maximal runs of word characters.\<close>

definition match_words :: "string \<Rightarrow> string list" where
  "match_words s = filter (\<lambda>w. w \<noteq> []) (split_on (\<lambda>c. \<not> is_word c) s)"

text \<open>\<^verbatim>\<open>xs.join(sep)\<close>\<close>

fun join :: "string \<Rightarrow> string list \<Rightarrow> string" where
  "join sep [] = []"
| "join sep [x] = x"
| "join sep (x # y # ys) = x @ sep @ join sep (y # ys)"

text \<open>\<^verbatim>\<open>s.trim()\<close>\<close>

definition trim :: "string \<Rightarrow> string" where
  "trim s = rev (dropWhile is_space (rev (dropWhile is_space s)))"

text \<open>\<^verbatim>\<open>s.startsWith(p)\<close> and \<^verbatim>\<open>s.includes(p)\<close>\<close>

fun startsWith :: "string \<Rightarrow> string \<Rightarrow> bool" where
  "startsWith s [] = True"
| "startsWith [] (p # ps) = False"
| "startsWith (c # cs) (p # ps) = (c = p \<and> startsWith cs ps)"

fun str_includes :: "string \<Rightarrow> string \<Rightarrow> bool" where
  "str_includes [] p = (p = [])"
| "str_includes (c # cs) p = (startsWith (c # cs) p \<or> str_includes cs p)"

text \<open>
  \<^verbatim>\<open>s.replace(pat, rep)\<close> with a string pattern: the first occurrence of \<open>pat\<close> as a
  substring of \<open>s\<close> is replaced. (The replacements of this program hold no \<^verbatim>\<open>$\<close>.)
\<close>

fun replace_first :: "string \<Rightarrow> string \<Rightarrow> string \<Rightarrow> string" where
  "replace_first pat rep [] = (if pat = [] then rep else [])"
| "replace_first pat rep (c # cs) =
     (if startsWith (c # cs) pat then rep @ drop (length pat) (c # cs)
      else c # replace_first pat rep cs)"

text \<open>
  The decimal form of an integer, which is how JavaScript prints an integral number
  below \<open>10\<^sup>2\<^sup>1\<close> in magnitude. (From there on it prints an exponent form whose digits
  depend on binary rounding; the model keeps the plain digits.)
\<close>

definition digit_char :: "nat \<Rightarrow> char" where
  "digit_char d = ''0123456789'' ! d"

fun show_nat :: "nat \<Rightarrow> string" where
  "show_nat n = (if n < 10 then [digit_char n] else show_nat (n div 10) @ [digit_char (n mod 10)])"

declare show_nat.simps [simp del]

definition show_int :: "int \<Rightarrow> string" where
  "show_int i = (if i < 0 then CHR ''-'' # show_nat (nat (- i)) else show_nat (nat i))"

text \<open>
  \<^verbatim>\<open>String(v)\<close> inside a template literal. Only integral values are printed by this
  program: array lengths and results of \<^verbatim>\<open>Math.round\<close>.
\<close>

fun number_to_string :: "jsnum \<Rightarrow> string" where
  "number_to_string (Fin x) = show_int \<lfloor>x\<rfloor>"
| "number_to_string PosInf = ''Infinity''"
| "number_to_string NegInf = ''-Infinity''"
| "number_to_string NaN = ''NaN''"

section \<open>The vector store: \<^verbatim>\<open>src/lib/vector-store.ts\<close>\<close>

datatype source_type = Text | File | Website

text \<open>
  The metadata of a document. The optional \<^verbatim>\<open>size\<close> is \<open>None\<close> when absent and the
  \<^verbatim>\<open>timestamp\<close> is the date in milliseconds.
\<close>

record metadata =
  name :: string
  type :: source_type
  size_opt :: "nat option"
  timestamp :: int

text \<open>
  A stored document. Its embedding is whatever the provider's reply held in the field
  \<^verbatim>\<open>embedding\<close>: the type \<^verbatim>\<open>number[]\<close> is not checked at run time, so the field may be
  \<^verbatim>\<open>undefined\<close>, which is \<open>None\<close> here.
\<close>

record VectorDocument =
  doc_id :: string
  content :: string
  embedding :: "jsnum list option"
  metadata :: metadata

record SearchResult =
  document :: VectorDocument
  similarity :: jsnum

datatype error = TypeError

subsection \<open>Cosine similarity\<close>

text \<open>
  \<^verbatim>\<open>a.reduce((sum, val, i) => sum + val * b[i], 0)\<close>: past the end of \<open>b\<close> the read
  \<^verbatim>\<open>b[i]\<close> is \<^verbatim>\<open>undefined\<close> and the product is \<open>NaN\<close>.
\<close>

fun dotProduct :: "jsnum \<Rightarrow> jsnum list \<Rightarrow> jsnum list \<Rightarrow> jsnum" where
  "dotProduct acc [] b = acc"
| "dotProduct acc (val # a) [] = dotProduct (jadd acc (jmul val NaN)) a []"
| "dotProduct acc (val # a) (bi # b) = dotProduct (jadd acc (jmul val bi)) a b"

text \<open>\<^verbatim>\<open>a.reduce((sum, val) => sum + val * val, 0)\<close>\<close>

definition sumSquares :: "jsnum list \<Rightarrow> jsnum" where
  "sumSquares a = foldl (\<lambda>acc val. jadd acc (jmul val val)) (Fin 0) a"

definition cosineSimilarity :: "jsnum list \<Rightarrow> jsnum list \<Rightarrow> jsnum" where
  "cosineSimilarity a b =
     (let dot = dotProduct (Fin 0) a b;
          magnitudeA = jsqrt (sumSquares a);
          magnitudeB = jsqrt (sumSquares b)
      in jdiv dot (jmul magnitudeA magnitudeB))"

text \<open>
  The call with values that may be \<^verbatim>\<open>undefined\<close>: \<^verbatim>\<open>a.reduce\<close> and \<^verbatim>\<open>b.reduce\<close> raise a
  \<^verbatim>\<open>TypeError\<close> on \<^verbatim>\<open>undefined\<close>.
\<close>

fun cosineSimilarity_call :: "jsnum list option \<Rightarrow> jsnum list option \<Rightarrow> error + jsnum" where
  "cosineSimilarity_call (Some a) (Some b) = Inr (cosineSimilarity a b)"
| "cosineSimilarity_call _ _ = Inl TypeError"

subsection \<open>The lexical vectorizer\<close>

definition commonWords :: "string list" where
  "commonWords =
    [''the'', ''and'', ''or'', ''but'', ''in'', ''on'', ''at'', ''to'', ''for'', ''of'',
     ''with'', ''by'', ''from'', ''up'', ''about'', ''into'', ''through'', ''during'',
     ''before'', ''after'', ''above'', ''below'', ''between'', ''among'', ''within'',
     ''without'', ''under'', ''over'', ''across'', ''behind'', ''beyond'', ''beside'',
     ''data'', ''information'', ''system'', ''process'', ''method'', ''result'',
     ''analysis'', ''research'', ''study'', ''report'', ''document'', ''content'',
     ''text'', ''file'', ''website'', ''application'', ''software'', ''technology'',
     ''computer'', ''digital'', ''online'', ''internet'', ''web'', ''database'',
     ''algorithm'', ''model'', ''machine'', ''learning'', ''artificial'', ''intelligence'',
     ''neural'', ''network'', ''deep'', ''training'', ''prediction'', ''classification'',
     ''feature'', ''pattern'', ''recognition'', ''natural'', ''language'', ''processing'',
     ''semantic'', ''similarity'', ''vector'', ''embedding'', ''retrieval'',
     ''generation'', ''query'', ''search'', ''index'', ''knowledge'', ''base'',
     ''repository'', ''storage'', ''memory'', ''cache'', ''optimization'', ''performance'',
     ''efficiency'', ''accuracy'', ''precision'', ''recall'', ''evaluation'', ''metric'',
     ''score'', ''threshold'', ''parameter'', ''configuration'', ''setting'', ''option'',
     ''choice'']"

text \<open>
  \<^verbatim>\<open>wordFreq[word] = (wordFreq[word] || 0) + 1\<close> on the object \<open>wordFreq\<close>, a map from
  words to counts. (For a word that names a property of \<^verbatim>\<open>Object.prototype\<close> the entry
  is not a count; no such word is in \<open>commonWords\<close>, so it is never read.)
\<close>

definition count_word :: "(string \<rightharpoonup> nat) \<Rightarrow> string \<Rightarrow> (string \<rightharpoonup> nat)" where
  "count_word wordFreq word =
     wordFreq(word \<mapsto> (case wordFreq word of Some n \<Rightarrow> n | None \<Rightarrow> 0) + 1)"

definition textToVector :: "string \<Rightarrow> jsnum list" where
  "textToVector text =
     (let words = match_words (toLowerCase text);
          wordFreq = foldl count_word Map.empty words;
          vector = map (\<lambda>word.
            let freq = (case wordFreq word of Some n \<Rightarrow> n | None \<Rightarrow> 0)
            in jdiv (Fin (real freq)) (Fin (real (length words)))) commonWords
      in take 100 (vector @ replicate (100 - length vector) (Fin 0)))"

subsection \<open>The embedding provider\<close>

text \<open>
  The two remote providers are parameters of the model. A reply depends on the request
  and on how many requests were made before it; every request is appended to a trace.
  \<open>EmbedFailed\<close> covers a rejected \<^verbatim>\<open>fetch\<close>, a reply that is not \<^verbatim>\<open>ok\<close> and a body that is
  not JSON; \<open>EmbedData e\<close> is a reply whose field \<^verbatim>\<open>embedding\<close> is \<open>e\<close>.
\<close>

datatype request = EmbeddingRequest string | ChatRequest string string

datatype embed_response = EmbedFailed | EmbedData "jsnum list option"

type_synonym embed_api = "nat \<Rightarrow> string \<Rightarrow> embed_response"

definition generateEmbedding ::
  "embed_api \<Rightarrow> string \<Rightarrow> request list \<Rightarrow> jsnum list option \<times> request list" where
  "generateEmbedding api text requests =
     ((case api (length requests) text of
         EmbedData e \<Rightarrow> e
       | EmbedFailed \<Rightarrow> Some (textToVector text)),
      requests @ [EmbeddingRequest text])"

subsection \<open>The store\<close>

text \<open>The state: the documents of the store, in insertion order, and the trace.\<close>

record state =
  documents :: "VectorDocument list"
  requests :: "request list"

definition addDocument ::
  "embed_api \<Rightarrow> string \<Rightarrow> string \<Rightarrow> metadata \<Rightarrow> state \<Rightarrow> VectorDocument \<times> state" where
  "addDocument api i c m s =
     (let (e, requests') = generateEmbedding api c (requests s);
          vectorDoc = \<lparr>doc_id = i, content = c, embedding = e, metadata = m\<rparr>
      in (vectorDoc,
          s\<lparr>documents := filter (\<lambda>doc. doc_id doc \<noteq> i) (documents s) @ [vectorDoc],
            requests := requests'\<rparr>))"

definition removeDocument :: "string \<Rightarrow> state \<Rightarrow> bool \<times> state" where
  "removeDocument i s =
     (let initialLength = length (documents s);
          documents' = filter (\<lambda>doc. doc_id doc \<noteq> i) (documents s)
      in (length documents' < initialLength, s\<lparr>documents := documents'\<rparr>))"

text \<open>
  \<^verbatim>\<open>xs.sort(cmp)\<close>. ECMAScript asks for a stable sort and reads a comparator result
  \<open>v\<close> as: \<open>v < 0\<close> puts the first argument first, \<open>v > 0\<close> the second, and zero or
  \<open>NaN\<close> leaves the two in their order. For a consistent comparator every stable sort
  gives the same array; the model is the insertion sort. (With an inconsistent
  comparator the order is left to the engine.)
\<close>

fun insert_by :: "('a \<Rightarrow> 'a \<Rightarrow> jsnum) \<Rightarrow> 'a \<Rightarrow> 'a list \<Rightarrow> 'a list" where
  "insert_by cmp x [] = [x]"
| "insert_by cmp x (y # ys) =
     (if jgt (cmp x y) (Fin 0) then y # insert_by cmp x ys else x # y # ys)"

definition array_sort :: "('a \<Rightarrow> 'a \<Rightarrow> jsnum) \<Rightarrow> 'a list \<Rightarrow> 'a list" where
  "array_sort cmp xs = foldr (insert_by cmp) xs []"

text \<open>The comparator \<^verbatim>\<open>(a, b) => b.similarity - a.similarity\<close>\<close>

definition by_similarity :: "SearchResult \<Rightarrow> SearchResult \<Rightarrow> jsnum" where
  "by_similarity a b = jsub (similarity b) (similarity a)"

text \<open>\<^verbatim>\<open>xs.slice(0, n)\<close> for an integer \<open>n\<close>: a negative \<open>n\<close> counts from the end.\<close>

definition slice0 :: "int \<Rightarrow> 'a list \<Rightarrow> 'a list" where
  "slice0 n xs = (if n < 0 then take (nat (int (length xs) + n)) xs else take (nat n) xs)"

text \<open>A \<^verbatim>\<open>map\<close> whose callback may raise: the first exception leaves the loop.\<close>

fun map_throwing :: "('a \<Rightarrow> error + 'b) \<Rightarrow> 'a list \<Rightarrow> error + 'b list" where
  "map_throwing f [] = Inr []"
| "map_throwing f (x # xs) =
     (case f x of
        Inl e \<Rightarrow> Inl e
      | Inr y \<Rightarrow> (case map_throwing f xs of Inl e \<Rightarrow> Inl e | Inr ys \<Rightarrow> Inr (y # ys)))"

definition search ::
  "embed_api \<Rightarrow> string \<Rightarrow> int \<Rightarrow> state \<Rightarrow> (error + SearchResult list) \<times> state" where
  "search api query topK s =
     (if length (documents s) = 0 then (Inr [], s)
      else
        (let (queryVector, requests') = generateEmbedding api query (requests s);
             s' = s\<lparr>requests := requests'\<rparr>
         in case map_throwing (\<lambda>doc.
                  case cosineSimilarity_call queryVector (embedding doc) of
                    Inl e \<Rightarrow> Inl e
                  | Inr sim \<Rightarrow> Inr \<lparr>document = doc, similarity = sim\<rparr>) (documents s) of
              Inl e \<Rightarrow> (Inl e, s')
            | Inr results \<Rightarrow>
                (Inr (filter (\<lambda>result. jgt (similarity result) (Fin (1 / 10)))
                        (slice0 topK (array_sort by_similarity results))), s')))"

section \<open>The pipeline: \<^verbatim>\<open>src/lib/rag-pipeline.ts\<close>\<close>

definition dquote :: string where
  "dquote = [CHR 0x22]"

definition apostrophe :: string where
  "apostrophe = [CHR 0x27]"

definition newline :: string where
  "newline = [CHR 0x0A]"

subsection \<open>Context building\<close>

text \<open>The provenance line written before the content of a document.\<close>

definition header :: "SearchResult \<Rightarrow> string" where
  "header result =
     newline @ ''--- From '' @ dquote @ name (metadata (document result)) @ dquote @ '' ('' @
     number_to_string (jround (jmul (similarity result) (Fin 100))) @
     ''% relevant) ---'' @ newline"

text \<open>
  The \<^verbatim>\<open>for\<close> loop of \<^verbatim>\<open>buildContext\<close> over the sorted results. Its state is the pair of
  \<^verbatim>\<open>context\<close> and \<^verbatim>\<open>tokenCount\<close>; the \<^verbatim>\<open>break\<close> is the branch without a recursive call.
\<close>

fun buildContext_loop :: "int \<Rightarrow> SearchResult list \<Rightarrow> string \<times> int \<Rightarrow> string \<times> int" where
  "buildContext_loop maxTokens [] (ctx, tokenCount) = (ctx, tokenCount)"
| "buildContext_loop maxTokens (result # rest) (ctx, tokenCount) =
     (let docContent = content (document result);
          docTokens = int (length (split_ws docContent))
      in if tokenCount + docTokens \<le> maxTokens
         then buildContext_loop maxTokens rest
                (ctx @ header result @ docContent @ newline, tokenCount + docTokens)
         else
           (let remainingTokens = maxTokens - tokenCount
            in if remainingTokens > 50
               then (ctx @ header result @
                       (join '' '' (slice0 remainingTokens (split_ws docContent)) @ ''...'') @
                       newline, tokenCount)
               else (ctx, tokenCount)))"

text \<open>The parameter \<^verbatim>\<open>query\<close> is not used by the source.\<close>

definition buildContext :: "SearchResult list \<Rightarrow> string \<Rightarrow> int \<Rightarrow> string" where
  "buildContext searchResults q maxTokens =
     (if length searchResults = 0 then []
      else trim (fst (buildContext_loop maxTokens
                   (array_sort by_similarity searchResults) ([], 0))))"

subsection \<open>Answer generation\<close>

text \<open>
  The completion provider. \<open>ChatFailed\<close> covers a rejected \<^verbatim>\<open>fetch\<close>, a reply that is not
  \<^verbatim>\<open>ok\<close> and a body that is not a JSON object; \<open>ChatData a\<close> is a reply whose field
  \<^verbatim>\<open>answer\<close> is the string \<open>a\<close>, or is absent.
\<close>

datatype chat_response = ChatFailed | ChatData "string option"

type_synonym chat_api = "nat \<Rightarrow> string \<Rightarrow> string \<Rightarrow> chat_response"

definition insufficient_answer :: "string \<Rightarrow> string" where
  "insufficient_answer q =
     ''I don'' @ apostrophe @
     ''t have enough information in the current document collection to answer '' @
     dquote @ q @ dquote @
     ''. Please add more relevant documents or try rephrasing your question.''"

definition unable_answer :: string where
  "unable_answer = ''I was unable to generate a response. Please try again.''"

text \<open>The \<^verbatim>\<open>catch\<close> block of \<^verbatim>\<open>generateAnswer\<close>: an answer made of sentences of the context.\<close>

definition is_relevant :: "string \<Rightarrow> string \<Rightarrow> bool" where
  "is_relevant q sentence =
     (let queryWords = split_ws (toLowerCase q);
          sentenceWords = split_ws (toLowerCase sentence)
      in list_ex (\<lambda>word.
           list_ex (\<lambda>sw. str_includes sw word \<or> str_includes word sw) sentenceWords)
           queryWords)"

definition fallback_answer :: "string \<Rightarrow> string \<Rightarrow> SearchResult list \<Rightarrow> string" where
  "fallback_answer q ctx srcs =
     (let avgSimilarity =
            jdiv (foldl (\<lambda>acc source. jadd acc (similarity source)) (Fin 0) srcs)
                 (Fin (real (length srcs)));
          conf = jround (jmul avgSimilarity (Fin 100));
          sourceNames = join '', '' (map (\<lambda>s. name (metadata (document s))) srcs);
          count = number_to_string (Fin (real (length srcs)));
          opening =
            ''Based on the information from '' @ count @ '' document(s) ('' @ sourceNames @
            ''), here'' @ apostrophe @ ''s what I found regarding '' @
            dquote @ q @ dquote @ '':'' @ newline @ newline;
          sentences =
            filter (\<lambda>s. length (trim s) > 20) (split_on (\<lambda>c. c \<in> set ''.!?'') ctx);
          relevantSentences = slice0 5 (filter (is_relevant q) sentences);
          body =
            (if length relevantSentences > 0 then join ''. '' relevantSentences @ ''.''
             else join ''. '' (slice0 3 sentences) @ ''.'')
      in opening @ body @ newline @ newline @
         ''This response is based on '' @ count @
         '' source document(s) with an average relevance score of '' @
         number_to_string conf @ ''%.'')"

definition generateAnswer ::
  "chat_api \<Rightarrow> string \<Rightarrow> string \<Rightarrow> SearchResult list \<Rightarrow> request list
     \<Rightarrow> string \<times> request list" where
  "generateAnswer api q ctx srcs reqs =
     (if ctx = [] \<or> length srcs = 0 then (insufficient_answer q, reqs)
      else
        ((case api (length reqs) q ctx of
            ChatData (Some a) \<Rightarrow> (if a = [] then unable_answer else a)
          | ChatData None \<Rightarrow> unable_answer
          | ChatFailed \<Rightarrow> fallback_answer q ctx srcs),
         reqs @ [ChatRequest q ctx]))"

subsection \<open>The orchestrator\<close>

record RAGContext =
  query :: string
  retrievedDocuments :: "SearchResult list"
  contextWindow :: string
  confidence :: jsnum

record RAGResponse =
  answer :: string
  rag_context :: RAGContext
  sources :: "SearchResult list"
  processingTime :: int

text \<open>
  The \<^verbatim>\<open>try\<close> block, up to the second reading of the clock. \<^verbatim>\<open>buildContext\<close> sorts the
  array it is given in place, so the later steps see the sorted array.
\<close>

definition try_block ::
  "embed_api \<Rightarrow> chat_api \<Rightarrow> string \<Rightarrow> int \<Rightarrow> state
     \<Rightarrow> (error + string \<times> RAGContext \<times> SearchResult list) \<times> state" where
  "try_block eapi capi q topK s =
     (case search eapi q topK s of
        (Inl e, s1) \<Rightarrow> (Inl e, s1)
      | (Inr found, s1) \<Rightarrow>
          (let window = buildContext found q 2000;
               searchResults = array_sort by_similarity found;
               conf =
                 (if length searchResults > 0
                  then jround (jmul
                         (jdiv (foldl (\<lambda>acc r. jadd acc (similarity r)) (Fin 0) searchResults)
                               (Fin (real (length searchResults))))
                         (Fin 100))
                  else Fin 0);
               (ans, requests') = generateAnswer capi q window searchResults (requests s1)
           in (Inr (ans,
                    \<lparr>query = q, retrievedDocuments = searchResults,
                     contextWindow = window, confidence = conf\<rparr>,
                    searchResults),
               s1\<lparr>requests := requests'\<rparr>)))"

definition error_answer :: string where
  "error_answer =
     ''I encountered an error while processing your query. Please try again or rephrase your question.''"

text \<open>
  \<open>startTime\<close> and \<open>endTime\<close> are the two readings of \<^verbatim>\<open>Date.now()\<close>: at entry, and
  either after the answer or in the \<^verbatim>\<open>catch\<close> block.
\<close>

definition processRAGQuery ::
  "embed_api \<Rightarrow> chat_api \<Rightarrow> string \<Rightarrow> int \<Rightarrow> int \<Rightarrow> int \<Rightarrow> state \<Rightarrow> RAGResponse \<times> state" where
  "processRAGQuery eapi capi q topK startTime endTime s =
     (case try_block eapi capi q topK s of
        (Inr (ans, c, srcs), s') \<Rightarrow>
          (\<lparr>answer = ans, rag_context = c, sources = srcs,
            processingTime = endTime - startTime\<rparr>, s')
      | (Inl e, s') \<Rightarrow>
          (\<lparr>answer = error_answer,
            rag_context = \<lparr>query = q, retrievedDocuments = [], contextWindow = [],
                       confidence = Fin 0\<rparr>,
            sources = [],
            processingTime = endTime - startTime\<rparr>, s'))"

subsection \<open>Query processing\<close>

definition stopWords :: "string list" where
  "stopWords =
    [''the'', ''a'', ''an'', ''and'', ''or'', ''but'', ''in'', ''on'', ''at'', ''to'',
     ''for'', ''of'', ''with'', ''by'', ''from'', ''up'', ''about'', ''into'', ''through'',
     ''during'', ''before'', ''after'', ''above'', ''below'', ''between'', ''among'',
     ''within'', ''without'', ''under'', ''over'', ''across'', ''behind'', ''beyond'',
     ''beside'']"

definition preprocessQuery :: "string \<Rightarrow> string" where
  "preprocessQuery q =
     trim (join '' ''
       (filter (\<lambda>word. length word > 2 \<and> word \<notin> set stopWords)
         (split_ws
           (map (\<lambda>c. if is_word c \<or> is_space c then c else CHR '' '') (toLowerCase q)))))"

definition synonymMap :: "(string \<times> string list) list" where
  "synonymMap =
    [(''data'', [''information'', ''content'', ''facts'']),
     (''analysis'', [''examination'', ''study'', ''research'']),
     (''system'', [''platform'', ''application'', ''software'']),
     (''process'', [''method'', ''procedure'', ''workflow'']),
     (''result'', [''outcome'', ''finding'', ''conclusion'']),
     (''document'', [''file'', ''text'', ''content'']),
     (''search'', [''find'', ''locate'', ''retrieve'']),
     (''information'', [''data'', ''content'', ''details''])]"

text \<open>
  The read \<^verbatim>\<open>synonymMap[word]\<close>. \<open>synonymMap\<close> is an object literal, so a word that is not
  one of its keys is looked up in \<^verbatim>\<open>Object.prototype\<close>: there the read gives a function or
  an object, which is truthy and has no \<^verbatim>\<open>forEach\<close>.
\<close>

datatype property = Absent | Own "string list" | Inherited

definition prototype_keys :: "string list" where
  "prototype_keys =
    [''constructor'', ''__proto__'', ''hasOwnProperty'', ''isPrototypeOf'',
     ''propertyIsEnumerable'', ''toLocaleString'', ''toString'', ''valueOf'',
     ''__defineGetter__'', ''__defineSetter__'', ''__lookupGetter__'', ''__lookupSetter__'']"

definition synonymMap_get :: "string \<Rightarrow> property" where
  "synonymMap_get word =
     (case map_of synonymMap word of
        Some synonyms \<Rightarrow> Own synonyms
      | None \<Rightarrow> if word \<in> set prototype_keys then Inherited else Absent)"

text \<open>The inner \<^verbatim>\<open>forEach\<close>, over the synonyms of one word.\<close>

fun add_synonyms :: "string \<Rightarrow> string \<Rightarrow> string list \<Rightarrow> string list \<Rightarrow> string list" where
  "add_synonyms baseQuery word [] expansions = expansions"
| "add_synonyms baseQuery word (synonym # rest) expansions =
     (let expandedQuery = replace_first word synonym baseQuery
      in add_synonyms baseQuery word rest
           (if expandedQuery \<in> set expansions then expansions
            else expansions @ [expandedQuery]))"

text \<open>The outer \<^verbatim>\<open>forEach\<close>, over the words of the preprocessed query.\<close>

fun expand_words :: "string \<Rightarrow> string list \<Rightarrow> string list \<Rightarrow> error + string list" where
  "expand_words baseQuery [] expansions = Inr expansions"
| "expand_words baseQuery (word # rest) expansions =
     (case synonymMap_get word of
        Absent \<Rightarrow> expand_words baseQuery rest expansions
      | Inherited \<Rightarrow> Inl TypeError
      | Own synonyms \<Rightarrow>
          expand_words baseQuery rest (add_synonyms baseQuery word synonyms expansions))"

definition expandQuery :: "string \<Rightarrow> error + string list" where
  "expandQuery q =
     (let baseQuery = preprocessQuery q
      in expand_words baseQuery (split_ws baseQuery) [baseQuery])"

section \<open>Sequences of store operations\<close>

datatype operation = Add string string metadata | Remove string

fun apply_operation :: "embed_api \<Rightarrow> state \<Rightarrow> operation \<Rightarrow> state" where
  "apply_operation api s (Add i c m) = snd (addDocument api i c m s)"
| "apply_operation api s (Remove i) = snd (removeDocument i s)"

definition empty_store :: state where
  "empty_store = \<lparr>documents = [], requests = []\<rparr>"

definition run_operations :: "embed_api \<Rightarrow> operation list \<Rightarrow> state" where
  "run_operations api ops = foldl (apply_operation api) empty_store ops"

section \<open>Notions used by the statements\<close>

text \<open>
  An alphanumeric token, in the plain sense of the words: a maximal run of ASCII
  letters and digits. (The vectorizer itself matches \<^verbatim>\<open>\w+\<close>, see \<open>match_words\<close>.)
\<close>

definition is_alnum :: "char \<Rightarrow> bool" where
  "is_alnum c \<longleftrightarrow>
     c \<in> set ''abcdefghijklmnopqrstuvwxyzABCDEFGHIJKLMNOPQRSTUVWXYZ0123456789''"

definition alnum_tokens :: "string \<Rightarrow> string list" where
  "alnum_tokens s = filter (\<lambda>w. w \<noteq> []) (split_on (\<lambda>c. \<not> is_alnum c) s)"

text \<open>
  The tokens of a text in the plain sense: the non-empty pieces between runs of white
  space. (The context builder counts \<^verbatim>\<open>split(/\s+/).length\<close>, which also counts an empty
  piece at either end.)
\<close>

definition whitespace_tokens :: "string \<Rightarrow> string list" where
  "whitespace_tokens s = filter (\<lambda>w. w \<noteq> []) (split_ws s)"

text \<open>A finite number between 0 and 1.\<close>

fun in_unit :: "jsnum \<Rightarrow> bool" where
  "in_unit (Fin x) = (0 \<le> x \<and> x \<le> 1)"
| "in_unit _ = False"

text \<open>The read \<^verbatim>\<open>wordFreq[word] || 0\<close>\<close>

definition freq_of :: "(string \<rightharpoonup> nat) \<Rightarrow> string \<Rightarrow> nat" where
  "freq_of wordFreq word = (case wordFreq word of Some n \<Rightarrow> n | None \<Rightarrow> 0)"

text \<open>Zero or \<open>NaN\<close>: what sums and products over a zero vector can be.\<close>

definition zero_or_NaN :: "jsnum \<Rightarrow> bool" where
  "zero_or_NaN v \<longleftrightarrow> v = Fin 0 \<or> v = NaN"

text \<open>A list of results in descending order: no result is above an earlier one.\<close>

definition descending :: "SearchResult list \<Rightarrow> bool" where
  "descending rs = sorted_wrt (\<lambda>a b. \<not> jgt (similarity b) (similarity a)) rs"

text \<open>
  What the loop of \<^verbatim>\<open>buildContext\<close> puts into the context: whole documents, and at most
  one leading fragment with the number of tokens asked for. \<open>selected\<close> follows the
  branches of the loop and keeps the choice instead of the text.
\<close>

datatype piece = Whole SearchResult | Partial SearchResult int

fun selected :: "int \<Rightarrow> SearchResult list \<Rightarrow> int \<Rightarrow> piece list" where
  "selected maxTokens [] tokenCount = []"
| "selected maxTokens (result # rest) tokenCount =
     (let docTokens = int (length (split_ws (content (document result))))
      in if tokenCount + docTokens \<le> maxTokens
         then Whole result # selected maxTokens rest (tokenCount + docTokens)
         else if maxTokens - tokenCount > 50
              then [Partial result (maxTokens - tokenCount)]
              else [])"

fun piece_tokens :: "piece \<Rightarrow> string list" where
  "piece_tokens (Whole r) = split_ws (content (document r))"
| "piece_tokens (Partial r n) = slice0 n (split_ws (content (document r)))"

fun piece_text :: "piece \<Rightarrow> string" where
  "piece_text (Whole r) = header r @ content (document r) @ newline"
| "piece_text (Partial r n) =
     header r @ (join '' '' (piece_tokens (Partial r n)) @ ''...'') @ newline"

section \<open>Example inputs\<close>

text \<open>A document whose embedding is \<^verbatim>\<open>undefined\<close>.\<close>

definition notes_metadata :: metadata where
  "notes_metadata = \<lparr>name = ''notes'', type = Text, size_opt = None, timestamp = 0\<rparr>"

definition undefined_doc :: VectorDocument where
  "undefined_doc =
     \<lparr>doc_id = ''1'', content = ''data'', embedding = None, metadata = notes_metadata\<rparr>"

text \<open>
  A store filled while the embedding provider is down, so that every vector is the
  lexical one. The second text has no word of the vocabulary.
\<close>

definition fallback_only :: embed_api where
  "fallback_only = (\<lambda>n text. EmbedFailed)"

definition team_text :: string where
  "team_text = ''The data team cleans the data, checks the data, ships the numbers.''"

definition cats_text :: string where
  "cats_text = ''Cats are small domesticated animals.''"

definition governance_text :: string where
  "governance_text = ''Data governance''"

definition example_store :: state where
  "example_store = run_operations fallback_only
     [Add ''1'' team_text notes_metadata,
      Add ''2'' cats_text notes_metadata,
      Add ''3'' governance_text notes_metadata]"

text \<open>
  A search result of similarity \<open>1/2\<close> for a given text, and its provenance line; the
  text of \<open>n + 1\<close> words \<open>w\<close>, and a text of 51 numbered words.
\<close>

definition result_of_text :: "string \<Rightarrow> SearchResult" where
  "result_of_text text =
     \<lparr>document = \<lparr>doc_id = ''1'', content = text, embedding = Some [Fin 1, Fin 0],
                   metadata = notes_metadata\<rparr>,
      similarity = Fin (1 / 2)\<rparr>"

definition provenance_50 :: string where
  "provenance_50 = ''--- From '' @ dquote @ ''notes'' @ dquote @ '' (50% relevant) ---''"

definition words_n :: "nat \<Rightarrow> string" where
  "words_n n = concat (replicate n ''w '') @ ''w''"

definition words_51 :: string where
  "words_51 =
     ''w01 w02 w03 w04 w05 w06 w07 w08 w09 w10 w11 w12 w13 w14 w15 w16 w17 w18 w19 w20 w21 w22 w23 w24 w25 w26 w27 w28 w29 w30 w31 w32 w33 w34 w35 w36 w37 w38 w39 w40 w41 w42 w43 w44 w45 w46 w47 w48 w49 w50 w51''"

section \<open>Properties of the store\<close>

lemma documents_addDocument:
  "documents (snd (addDocument api i c m s)) =
     filter (\<lambda>doc. doc_id doc \<noteq> i) (documents s) @ [fst (addDocument api i c m s)]"
  by (simp add: addDocument_def Let_def split: prod.split)

lemma fst_addDocument:
  "doc_id (fst (addDocument api i c m s)) = i \<and>
   content (fst (addDocument api i c m s)) = c \<and>
   metadata (fst (addDocument api i c m s)) = m"
  by (simp add: addDocument_def Let_def split: prod.split)

lemma documents_removeDocument:
  "documents (snd (removeDocument i s)) = filter (\<lambda>doc. doc_id doc \<noteq> i) (documents s)"
  by (simp add: removeDocument_def Let_def)

lemma distinct_ids_step:
  "distinct (map doc_id (documents s)) \<Longrightarrow>
   distinct (map doc_id (documents (apply_operation api s op)))"
  by (cases op)
     (auto simp: documents_addDocument documents_removeDocument fst_addDocument
        distinct_map_filter)

lemma distinct_ids_foldl:
  "distinct (map doc_id (documents s)) \<Longrightarrow>
   distinct (map doc_id (documents (foldl (apply_operation api) s ops)))"
  by (induction ops arbitrary: s) (simp_all add: distinct_ids_step)

text \<open>
  C3. Whatever operations were run from the empty store, no two stored documents share
  an id. And in any store, adding under an id twice leaves one document with that id:
  the one the second call made, whose content is the second content.
\<close>

theorem one_document_per_id:
  "distinct (map doc_id (documents (run_operations api ops))) \<and>
   filter (\<lambda>doc. doc_id doc = i)
     (documents (snd (addDocument api i c2 m2 (snd (addDocument api i c1 m1 s))))) =
     [fst (addDocument api i c2 m2 (snd (addDocument api i c1 m1 s)))] \<and>
   content (fst (addDocument api i c2 m2 (snd (addDocument api i c1 m1 s)))) = c2"
proof -
  have "distinct (map doc_id (documents (run_operations api ops)))"
    unfolding run_operations_def by (rule distinct_ids_foldl) (simp add: empty_store_def)
  moreover have "filter (\<lambda>doc. doc_id doc = i)
     (documents (snd (addDocument api i c2 m2 s'))) = [fst (addDocument api i c2 m2 s')]" for s'
    by (simp add: documents_addDocument fst_addDocument filter_empty_conv)
  ultimately show ?thesis by (simp add: fst_addDocument)
qed

text \<open>
  C6. On a store without documents \<^verbatim>\<open>search\<close> returns the empty list and leaves the
  trace of provider requests as it was: no embedding is asked for.
\<close>

theorem search_empty_store:
  "search api q topK \<lparr>documents = [], requests = reqs\<rparr> =
     (Inr [], \<lparr>documents = [], requests = reqs\<rparr>)"
  by (simp add: search_def)

section \<open>Properties of the orchestrator\<close>

lemma startsWith_append: "startsWith (p @ s) p"
  by (induction p) simp_all

lemma str_includes_append: "str_includes s p \<Longrightarrow> str_includes (pre @ s) p"
  by (induction pre) simp_all

lemma str_includes_middle: "str_includes (pre @ p @ post) p"
proof (rule str_includes_append)
  show "str_includes (p @ post) p"
    using startsWith_append[of p post] by (cases "p @ post") auto
qed

lemma try_block_empty_store:
  "try_block eapi capi q topK \<lparr>documents = [], requests = reqs\<rparr> =
     (Inr (insufficient_answer q,
           \<lparr>query = q, retrievedDocuments = [], contextWindow = [], confidence = Fin 0\<rparr>,
           []),
      \<lparr>documents = [], requests = reqs\<rparr>)"
  by (simp add: try_block_def search_def buildContext_def array_sort_def generateAnswer_def)

text \<open>
  C7. With no document in the store the response has confidence 0 and no sources, and
  its answer is the insufficient-information message, which includes the text of the
  query. No provider is asked.
\<close>

theorem empty_store_response:
  "confidence (rag_context (fst (processRAGQuery eapi capi q topK startTime endTime
       \<lparr>documents = [], requests = reqs\<rparr>))) = Fin 0 \<and>
   sources (fst (processRAGQuery eapi capi q topK startTime endTime
       \<lparr>documents = [], requests = reqs\<rparr>)) = [] \<and>
   answer (fst (processRAGQuery eapi capi q topK startTime endTime
       \<lparr>documents = [], requests = reqs\<rparr>)) = insufficient_answer q \<and>
   str_includes (insufficient_answer q) q \<and>
   requests (snd (processRAGQuery eapi capi q topK startTime endTime
       \<lparr>documents = [], requests = reqs\<rparr>)) = reqs"
proof -
  have "str_includes (insufficient_answer q) q"
    unfolding insufficient_answer_def
    using str_includes_middle[of "(''I don'' @ apostrophe @
     ''t have enough information in the current document collection to answer '' @
     dquote)" q "dquote @
     ''. Please add more relevant documents or try rephrasing your question.''"]
    by simp
  then show ?thesis
    by (simp add: processRAGQuery_def try_block_empty_store)
qed

text \<open>
  When does the \<^verbatim>\<open>try\<close> block raise? Exactly when the retrieval meets an embedding that
  is \<^verbatim>\<open>undefined\<close>: the other stages cannot raise.
\<close>

lemma map_throwing_Inl_iff:
  "(\<exists>e. map_throwing f xs = Inl e) \<longleftrightarrow> (\<exists>x\<in>set xs. \<exists>e. f x = Inl e)"
  by (induction xs) (auto split: sum.splits)

lemma search_raises_iff:
  "(\<exists>e. fst (search api q topK s) = Inl e) \<longleftrightarrow>
     documents s \<noteq> [] \<and>
     (fst (generateEmbedding api q (requests s)) = None \<or>
      (\<exists>doc\<in>set (documents s). embedding doc = None))"
proof (cases "documents s = []")
  case True
  then show ?thesis by (simp add: search_def)
next
  case False
  obtain qv rq where g: "generateEmbedding api q (requests s) = (qv, rq)"
    by (cases "generateEmbedding api q (requests s)")
  let ?f = "\<lambda>doc. case cosineSimilarity_call qv (embedding doc) of
                    Inl e \<Rightarrow> Inl e
                  | Inr sim \<Rightarrow> Inr \<lparr>document = doc, similarity = sim\<rparr>"
  have f: "(\<exists>e. ?f doc = Inl e) \<longleftrightarrow> qv = None \<or> embedding doc = None" for doc
    by (cases qv; cases "embedding doc") auto
  have "(\<exists>e. fst (search api q topK s) = Inl e) \<longleftrightarrow>
        (\<exists>e. map_throwing ?f (documents s) = Inl e)"
    using False by (auto simp: search_def g Let_def split: sum.splits)
  also have "\<dots> \<longleftrightarrow> (\<exists>doc\<in>set (documents s). qv = None \<or> embedding doc = None)"
    unfolding map_throwing_Inl_iff using f by blast
  also have "\<dots> \<longleftrightarrow> qv = None \<or> (\<exists>doc\<in>set (documents s). embedding doc = None)"
    using False by (cases "documents s") auto
  finally show ?thesis using False g by simp
qed

lemma try_block_raises_iff:
  "(\<exists>e. fst (try_block eapi capi q topK s) = Inl e) \<longleftrightarrow>
   (\<exists>e. fst (search eapi q topK s) = Inl e)"
  by (cases "search eapi q topK s")
     (auto simp: try_block_def Let_def split: sum.splits prod.splits)

text \<open>
  C4. \<^verbatim>\<open>processRAGQuery\<close> returns a response on every input. When the \<^verbatim>\<open>try\<close> block
  raises, the response is the one of the \<^verbatim>\<open>catch\<close> block: the generic error answer, a
  context with no retrieved documents, an empty context window and confidence 0, no
  sources, and the time between the two readings of the clock. When it does not raise,
  the response holds what the stages produced.
\<close>

theorem pipeline_exception_caught:
  "(fst (try_block eapi capi q topK s) = Inl e \<longrightarrow>
      fst (processRAGQuery eapi capi q topK startTime endTime s) =
        \<lparr>answer = error_answer,
         rag_context = \<lparr>query = q, retrievedDocuments = [], contextWindow = [],
                        confidence = Fin 0\<rparr>,
         sources = [], processingTime = endTime - startTime\<rparr>) \<and>
   (fst (try_block eapi capi q topK s) = Inr (ans, c, srcs) \<longrightarrow>
      fst (processRAGQuery eapi capi q topK startTime endTime s) =
        \<lparr>answer = ans, rag_context = c, sources = srcs,
         processingTime = endTime - startTime\<rparr>)"
  by (cases "try_block eapi capi q topK s")
     (auto simp: processRAGQuery_def)

theorem pipeline_exception_caught_witness:
  "fst (try_block (\<lambda>n t. EmbedData None) (\<lambda>n q c. ChatFailed) ''data'' 5
         \<lparr>documents = [undefined_doc], requests = []\<rparr>) = Inl TypeError \<and>
   fst (processRAGQuery (\<lambda>n t. EmbedData None) (\<lambda>n q c. ChatFailed) ''data'' 5 1000 1042
         \<lparr>documents = [undefined_doc], requests = []\<rparr>) =
     \<lparr>answer = error_answer,
      rag_context = \<lparr>query = ''data'', retrievedDocuments = [], contextWindow = [],
                     confidence = Fin 0\<rparr>,
      sources = [], processingTime = 42\<rparr>"
proof -
  have h: "fst (try_block (\<lambda>n t. EmbedData None) (\<lambda>n q c. ChatFailed) ''data'' 5
         \<lparr>documents = [undefined_doc], requests = []\<rparr>) = Inl TypeError"
    by (simp add: try_block_def search_def generateEmbedding_def undefined_doc_def)
  show ?thesis
    using h pipeline_exception_caught[of "\<lambda>n t. EmbedData None" "\<lambda>n q c. ChatFailed"
      "''data''" 5 "\<lparr>documents = [undefined_doc], requests = []\<rparr>" TypeError 1000 1042]
    by simp
qed

section \<open>Properties of the lexical vectorizer\<close>

lemma freq_of_count_word:
  "freq_of (count_word m v) w = freq_of m w + (if v = w then 1 else 0)"
  by (simp add: freq_of_def count_word_def)

lemma freq_of_foldl:
  "freq_of (foldl count_word m ws) w = freq_of m w + count_list ws w"
  by (induction ws arbitrary: m) (simp_all add: freq_of_count_word)

lemma length_commonWords: "length commonWords = 104"
  by (simp add: commonWords_def)

lemma textToVector_eq:
  "textToVector text =
     map (\<lambda>word. jdiv (Fin (real (count_list (match_words (toLowerCase text)) word)))
                      (Fin (real (length (match_words (toLowerCase text))))))
       (take 100 commonWords)"
proof -
  have f: "freq_of (foldl count_word Map.empty ws) w = count_list ws w" for ws w
    by (simp add: freq_of_foldl) (simp add: freq_of_def)
  have "textToVector text =
     take 100 (map (\<lambda>word. jdiv (Fin (real (freq_of
         (foldl count_word Map.empty (match_words (toLowerCase text))) word)))
       (Fin (real (length (match_words (toLowerCase text)))))) commonWords)"
    unfolding textToVector_def Let_def freq_of_def by (simp add: length_commonWords)
  then show ?thesis
    unfolding f by (simp add: take_map)
qed

lemma frequency_in_unit:
  assumes "ws \<noteq> []"
  shows "in_unit (jdiv (Fin (real (count_list ws w))) (Fin (real (length ws))))"
proof -
  have "count_list ws w \<le> length ws" by (rule count_le_length)
  moreover have "0 < length ws" using assms by simp
  ultimately show ?thesis by (simp add: divide_le_eq)
qed

text \<open>
  C10, as amended. The vector has 100 entries: for each of the first 100 words of the
  vocabulary, its number of occurrences among the word tokens of the lower-cased text
  (the maximal runs of letters, digits and underscores) divided by the number of
  tokens. When there is a token, every entry is a finite number between 0 and 1; when
  there is none, every entry is \<open>NaN\<close>.
\<close>

theorem textToVector_entries:
  "length (textToVector text) = 100 \<and>
   textToVector text =
     map (\<lambda>word. jdiv (Fin (real (count_list (match_words (toLowerCase text)) word)))
                      (Fin (real (length (match_words (toLowerCase text))))))
       (take 100 commonWords) \<and>
   (match_words (toLowerCase text) \<noteq> [] \<longrightarrow> list_all in_unit (textToVector text)) \<and>
   (match_words (toLowerCase text) = [] \<longrightarrow> textToVector text = replicate 100 NaN)"
proof (intro conjI impI)
  show "length (textToVector text) = 100"
    by (simp add: textToVector_eq length_commonWords)
next
  show "textToVector text =
     map (\<lambda>word. jdiv (Fin (real (count_list (match_words (toLowerCase text)) word)))
                      (Fin (real (length (match_words (toLowerCase text))))))
       (take 100 commonWords)"
    by (rule textToVector_eq)
next
  assume "match_words (toLowerCase text) \<noteq> []"
  then show "list_all in_unit (textToVector text)"
    unfolding textToVector_eq list_all_iff
    by (auto simp: count_le_length divide_le_eq)
next
  assume "match_words (toLowerCase text) = []"
  then have "textToVector text = map (\<lambda>word. NaN) (take 100 commonWords)"
    by (simp add: textToVector_eq)
  then show "textToVector text = replicate 100 NaN"
    by (simp add: map_replicate_const length_commonWords)
qed

text \<open>
  C10 as stated fails at the text \<open>_\<close>: it has no alphanumeric token, yet its vector
  is all zeros, since the underscore is a word character.
\<close>

theorem textToVector_underscore:
  "alnum_tokens ''_'' = [] \<and> textToVector ''_'' = replicate 100 (Fin 0)"
proof -
  have w: "match_words (toLowerCase ''_'') = [''_'']"
    by code_simp
  have c: "''_'' \<notin> set commonWords"
    by (simp add: commonWords_def)
  have "textToVector ''_'' = map (\<lambda>word. Fin 0) (take 100 commonWords)"
    unfolding textToVector_eq w
    using c by (intro map_cong) (auto dest!: in_set_takeD)
  then show ?thesis
    by (simp add: map_replicate_const length_commonWords alnum_tokens_def is_alnum_def)
qed

theorem textToVector_entries_witness:
  "match_words (toLowerCase ''Data, the DATA!'') \<noteq> [] \<and>
   list_all in_unit (textToVector ''Data, the DATA!'') \<and>
   match_words (toLowerCase ''?!'') = [] \<and> textToVector ''?!'' = replicate 100 NaN"
proof -
  have a: "match_words (toLowerCase ''Data, the DATA!'') \<noteq> []"
    by code_simp
  have b: "match_words (toLowerCase ''?!'') = []"
    by code_simp
  show ?thesis
    using a b textToVector_entries[of "''Data, the DATA!''"] textToVector_entries[of "''?!''"]
    by blast
qed

section \<open>Properties of the cosine similarity\<close>

lemma jmul_zero_left: "zero_or_NaN (jmul (Fin 0) y)"
  by (cases y) (simp_all add: zero_or_NaN_def inf_times_def)

lemma jmul_zero_right: "zero_or_NaN (jmul x (Fin 0))"
  by (cases x) (simp_all add: zero_or_NaN_def inf_times_def)

lemma jadd_zero_or_NaN: "zero_or_NaN u \<Longrightarrow> zero_or_NaN v \<Longrightarrow> zero_or_NaN (jadd u v)"
  by (auto simp: zero_or_NaN_def)

lemma jadd_NaN_right: "jadd u NaN = NaN"
  by (cases u) simp_all

lemma jmul_NaN_right: "jmul u NaN = NaN"
  by (cases u) simp_all

lemma jdiv_NaN_right: "jdiv u NaN = NaN"
  by (cases u) simp_all

lemma dotProduct_NaN: "dotProduct NaN a b = NaN"
  by (induction "NaN" a b rule: dotProduct.induct) simp_all

lemma dotProduct_zero_left:
  "\<forall>x\<in>set a. x = Fin 0 \<Longrightarrow> zero_or_NaN acc \<Longrightarrow> zero_or_NaN (dotProduct acc a b)"
proof (induction acc a b rule: dotProduct.induct)
  case (1 acc b)
  then show ?case by simp
next
  case (2 acc val a)
  then show ?case by (simp add: jadd_NaN_right dotProduct_NaN zero_or_NaN_def)
next
  case (3 acc val a bi b)
  then show ?case using jmul_zero_left[of bi] by (simp add: jadd_zero_or_NaN)
qed

lemma dotProduct_zero_right:
  "\<forall>x\<in>set b. x = Fin 0 \<Longrightarrow> zero_or_NaN acc \<Longrightarrow> zero_or_NaN (dotProduct acc a b)"
proof (induction acc a b rule: dotProduct.induct)
  case (1 acc b)
  then show ?case by simp
next
  case (2 acc val a)
  then show ?case by (simp add: jadd_NaN_right jmul_NaN_right dotProduct_NaN zero_or_NaN_def)
next
  case (3 acc val a bi b)
  then show ?case using jmul_zero_right[of val] by (simp add: jadd_zero_or_NaN)
qed

lemma sumSquares_zero: "\<forall>x\<in>set a. x = Fin 0 \<Longrightarrow> sumSquares a = Fin 0"
proof -
  have "\<forall>x\<in>set a. x = Fin 0 \<Longrightarrow>
        foldl (\<lambda>acc val. jadd acc (jmul val val)) (Fin 0) a = Fin 0"
    by (induction a) simp_all
  then show "\<forall>x\<in>set a. x = Fin 0 \<Longrightarrow> sumSquares a = Fin 0"
    by (simp add: sumSquares_def)
qed

lemma jdiv_zero_or_NaN: "zero_or_NaN d \<Longrightarrow> zero_or_NaN m \<Longrightarrow> jdiv d m = NaN"
  by (auto simp: zero_or_NaN_def)

lemma cosineSimilarity_zero_vector:
  assumes "(\<forall>x\<in>set a. x = Fin 0) \<or> (\<forall>x\<in>set b. x = Fin 0)"
  shows "cosineSimilarity a b = NaN"
proof -
  have d: "zero_or_NaN (dotProduct (Fin 0) a b)"
    using assms dotProduct_zero_left[of a "Fin 0" b] dotProduct_zero_right[of b "Fin 0" a]
    by (auto simp: zero_or_NaN_def)
  have m: "zero_or_NaN (jmul (jsqrt (sumSquares a)) (jsqrt (sumSquares b)))"
    using assms jmul_zero_left jmul_zero_right by (auto simp: sumSquares_zero)
  show ?thesis
    unfolding cosineSimilarity_def Let_def using d m by (rule jdiv_zero_or_NaN)
qed

lemma search_results_above_cutoff:
  assumes "fst (search api q topK s) = Inr results"
  shows "list_all (\<lambda>r. jgt (similarity r) (Fin (1 / 10))) results"
proof (cases "documents s = []")
  case True
  with assms show ?thesis by (simp add: search_def)
next
  case False
  with assms show ?thesis
    by (auto simp: search_def Let_def list_all_iff split: prod.splits sum.splits)
qed

lemma search_results_not_NaN:
  assumes "fst (search api q topK s) = Inr results"
  shows "list_all (\<lambda>r. similarity r \<noteq> NaN) results"
  using search_results_above_cutoff[OF assms] by (auto simp: list_all_iff)

lemma words_cats:
  "match_words (toLowerCase cats_text) =
     [''cats'', ''are'', ''small'', ''domesticated'', ''animals'']"
  by code_simp

lemma textToVector_cats: "textToVector cats_text = replicate 100 (Fin 0)"
  unfolding textToVector_eq words_cats by code_simp

text \<open>
  C2 fails on the code: the quotient is not guarded. With the provider down, the query
  \<open>small pets\<close> and the text about cats both get the zero vector, and their similarity
  is \<open>NaN\<close>, not 0; so is that of \<open>[0, 0]\<close> and \<open>[3, 4]\<close>. (What does hold is
  \<open>cosineSimilarity_zero_vector\<close>: the result is \<open>NaN\<close> whenever one vector is all
  zero, and \<open>search_results_not_NaN\<close>: the filter keeps \<open>NaN\<close> out of the results.)
\<close>

theorem zero_vector_not_zero:
  "cosineSimilarity (textToVector ''small pets'') (textToVector cats_text) = NaN \<and>
   cosineSimilarity [Fin 0, Fin 0] [Fin 3, Fin 4] = NaN"
proof
  show "cosineSimilarity (textToVector ''small pets'') (textToVector cats_text) = NaN"
    by (rule cosineSimilarity_zero_vector) (simp add: textToVector_cats)
  show "cosineSimilarity [Fin 0, Fin 0] [Fin 3, Fin 4] = NaN"
    by (simp add: cosineSimilarity_def sumSquares_def)
qed

section \<open>Properties of the search\<close>

text \<open>
  What holds of every search: at most \<open>topK\<close> results when \<open>topK\<close> is not negative,
  every similarity above the cutoff (\<open>search_results_above_cutoff\<close>), equal
  similarities kept in insertion order, and descending order as long as no similarity
  is \<open>NaN\<close>.
\<close>

lemma jgt_jsub: "a \<noteq> NaN \<Longrightarrow> b \<noteq> NaN \<Longrightarrow> jgt (jsub b a) (Fin 0) = jgt b a"
  by (cases a; cases b) (simp_all add: jsub_def)

lemma jgt_jsub_same: "\<not> jgt (jsub a a) (Fin 0)"
  by (cases a) (simp_all add: jsub_def)

lemma by_similarity_positive:
  "similarity x \<noteq> NaN \<Longrightarrow> similarity y \<noteq> NaN \<Longrightarrow>
   jgt (by_similarity x y) (Fin 0) = jgt (similarity y) (similarity x)"
  by (simp add: by_similarity_def jgt_jsub)

lemma not_jgt_trans:
  "b \<noteq> NaN \<Longrightarrow> \<not> jgt b a \<Longrightarrow> \<not> jgt c b \<Longrightarrow> \<not> jgt c a"
  by (cases a; cases b; cases c) simp_all

lemma jgt_not_sym: "jgt b a \<Longrightarrow> \<not> jgt a b"
  by (cases a; cases b) simp_all

lemma set_insert_by: "set (insert_by cmp x xs) = insert x (set xs)"
  by (induction xs) auto

lemma set_array_sort: "set (array_sort cmp xs) = set xs"
  unfolding array_sort_def by (induction xs) (simp_all add: set_insert_by)

lemma length_insert_by: "length (insert_by cmp x xs) = Suc (length xs)"
  by (induction xs) simp_all

lemma length_array_sort: "length (array_sort cmp xs) = length xs"
  unfolding array_sort_def by (induction xs) (simp_all add: length_insert_by)

lemma descending_insert_by:
  assumes "similarity x \<noteq> NaN" "\<forall>y\<in>set xs. similarity y \<noteq> NaN" "descending xs"
  shows "descending (insert_by by_similarity x xs)"
  using assms
proof (induction xs)
  case Nil
  then show ?case by (simp add: descending_def)
next
  case (Cons y ys)
  show ?case
  proof (cases "jgt (similarity y) (similarity x)")
    case True
    have "descending (insert_by by_similarity x ys)"
      using Cons by (simp add: descending_def)
    moreover have "\<not> jgt (similarity x) (similarity y)"
      using True by (rule jgt_not_sym)
    ultimately show ?thesis
      using True Cons.prems
      by (auto simp: descending_def by_similarity_positive set_insert_by)
  next
    case False
    have "\<forall>z\<in>set ys. \<not> jgt (similarity z) (similarity x)"
      using False Cons.prems not_jgt_trans[of "similarity y" "similarity x"]
      by (auto simp: descending_def)
    then show ?thesis
      using False Cons.prems
      by (auto simp: descending_def by_similarity_positive)
  qed
qed

lemma descending_array_sort:
  "\<forall>y\<in>set xs. similarity y \<noteq> NaN \<Longrightarrow> descending (array_sort by_similarity xs)"
proof (induction xs)
  case Nil
  then show ?case by (simp add: array_sort_def descending_def)
next
  case (Cons x xs)
  then have "descending (insert_by by_similarity x (array_sort by_similarity xs))"
    by (intro descending_insert_by) (simp_all add: set_array_sort)
  then show ?case by (simp add: array_sort_def)
qed

lemma filter_insert_by_stable:
  "filter (\<lambda>r. similarity r = v) (insert_by by_similarity x xs) =
     filter (\<lambda>r. similarity r = v) (x # xs)"
proof (induction xs)
  case Nil
  then show ?case by simp
next
  case (Cons y ys)
  have "similarity y \<noteq> similarity x" if "jgt (by_similarity x y) (Fin 0)"
    using that jgt_jsub_same[of "similarity x"] by (auto simp: by_similarity_def)
  with Cons show ?case by auto
qed

lemma array_sort_stable:
  "filter (\<lambda>r. similarity r = v) (array_sort by_similarity xs) =
     filter (\<lambda>r. similarity r = v) xs"
proof (induction xs)
  case Nil
  then show ?case by (simp add: array_sort_def)
next
  case (Cons x xs)
  have "filter (\<lambda>r. similarity r = v) (array_sort by_similarity (x # xs)) =
        filter (\<lambda>r. similarity r = v) (x # array_sort by_similarity xs)"
    by (simp add: array_sort_def filter_insert_by_stable del: filter.simps)
  with Cons show ?case by simp
qed

lemma descending_slice0: "descending xs \<Longrightarrow> descending (slice0 n xs)"
  by (simp add: descending_def slice0_def)

lemma descending_filter: "descending xs \<Longrightarrow> descending (filter P xs)"
  by (simp add: descending_def sorted_wrt_filter)

lemma map_throwing_Inr:
  "map_throwing f xs = Inr ys \<Longrightarrow> \<forall>y\<in>set ys. \<exists>x\<in>set xs. f x = Inr y"
  by (induction xs arbitrary: ys) (auto split: sum.splits)

lemma search_at_most_topK:
  assumes "fst (search api q topK s) = Inr results" and "0 \<le> topK"
  shows "int (length results) \<le> topK"
proof (cases "documents s = []")
  case True
  with assms show ?thesis by (simp add: search_def)
next
  case False
  have "int (length (filter P (slice0 topK xs))) \<le> topK"
    for P and xs :: "SearchResult list"
    using assms(2) length_filter_le[of P "slice0 topK xs"] by (simp add: slice0_def) linarith
  with False assms show ?thesis
    by (auto simp: search_def Let_def split: prod.splits sum.splits)
qed

lemma search_descending:
  assumes "fst (search api q topK s) = Inr results"
    and "\<forall>doc\<in>set (documents s).
           cosineSimilarity_call (fst (generateEmbedding api q (requests s))) (embedding doc)
             \<noteq> Inr NaN"
  shows "descending results"
proof (cases "documents s = []")
  case True
  with assms show ?thesis by (simp add: search_def descending_def)
next
  case False
  obtain qv rq where g: "generateEmbedding api q (requests s) = (qv, rq)"
    by (cases "generateEmbedding api q (requests s)")
  let ?f = "\<lambda>doc. case cosineSimilarity_call qv (embedding doc) of
                    Inl e \<Rightarrow> Inl e
                  | Inr sim \<Rightarrow> Inr \<lparr>document = doc, similarity = sim\<rparr>"
  obtain found where f: "map_throwing ?f (documents s) = Inr found"
    and r: "results = filter (\<lambda>result. jgt (similarity result) (Fin (1 / 10)))
                       (slice0 topK (array_sort by_similarity found))"
    using assms(1) False by (auto simp: search_def g Let_def split: sum.splits)
  have "\<forall>y\<in>set found. \<exists>x\<in>set (documents s). ?f x = Inr y"
    using f by (rule map_throwing_Inr)
  then have "\<forall>y\<in>set found. similarity y \<noteq> NaN"
    using assms(2) unfolding g by (fastforce split: sum.splits)
  then show ?thesis
    unfolding r by (intro descending_filter descending_slice0 descending_array_sort)
qed

lemma words_team:
  "match_words (toLowerCase team_text) =
     [''the'', ''data'', ''team'', ''cleans'', ''the'', ''data'', ''checks'', ''the'', ''data'',
      ''ships'', ''the'', ''numbers'']"
  by code_simp

lemma words_governance: "match_words (toLowerCase governance_text) = [''data'', ''governance'']"
  by code_simp

lemma words_data: "match_words (toLowerCase ''data'') = [''data'']"
  by code_simp

lemma sqrt_25_144: "sqrt (25 / 144) = 5 / 12"
  by (rule real_sqrt_unique) (simp_all add: power2_eq_square)

lemma sqrt_quarter: "sqrt (1 / 4) = 1 / 2"
  by (rule real_sqrt_unique) (simp_all add: power2_eq_square)

lemma similarity_team:
  "cosineSimilarity (textToVector ''data'') (textToVector team_text) = Fin (3 / 5)"
  unfolding textToVector_eq words_team words_data
  by (simp add: commonWords_def cosineSimilarity_def sumSquares_def sqrt_25_144)

lemma similarity_cats:
  "cosineSimilarity (textToVector ''data'') (textToVector cats_text) = NaN"
  by (rule cosineSimilarity_zero_vector) (simp add: textToVector_cats)

lemma similarity_governance:
  "cosineSimilarity (textToVector ''data'') (textToVector governance_text) = Fin 1"
  unfolding textToVector_eq words_governance words_data
  by (simp add: commonWords_def cosineSimilarity_def sumSquares_def sqrt_quarter)

lemma documents_example_store:
  "documents example_store =
     [\<lparr>doc_id = ''1'', content = team_text, embedding = Some (textToVector team_text),
       metadata = notes_metadata\<rparr>,
      \<lparr>doc_id = ''2'', content = cats_text, embedding = Some (textToVector cats_text),
       metadata = notes_metadata\<rparr>,
      \<lparr>doc_id = ''3'', content = governance_text,
       embedding = Some (textToVector governance_text), metadata = notes_metadata\<rparr>]"
  by (simp add: example_store_def run_operations_def empty_store_def addDocument_def Let_def
      generateEmbedding_def fallback_only_def)

subsection \<open>A store with a zero vector\<close>

text \<open>
  C1 fails on the code. The provider is down and the store holds, in this order, a text
  of similarity \<open>3/5\<close> to the query, a text without a word of the vocabulary, and a
  text of similarity 1. The second similarity is \<open>NaN\<close>, so is every comparison with
  it, and the sort, which compares neighbours, leaves the three where they are. The
  filter drops the second, and of the two results the lower one comes first.
\<close>

theorem search_order_example:
  "map_sum id (map (\<lambda>r. (doc_id (document r), similarity r)))
     (fst (search fallback_only ''data'' 5 example_store)) =
   Inr [(''1'', Fin (3 / 5)), (''3'', Fin 1)]"
  by (simp add: search_def documents_example_store generateEmbedding_def fallback_only_def
      similarity_team similarity_cats similarity_governance
      array_sort_def by_similarity_def jsub_def slice0_def)

section \<open>Properties of the query expansion\<close>

text \<open>
  What holds of every expansion that returns: the list starts with the preprocessed
  query and has no duplicates.
\<close>

lemma add_synonyms_extends:
  "\<exists>ys. add_synonyms baseQuery word synonyms expansions = expansions @ ys"
  by (induction synonyms arbitrary: expansions) (auto simp: Let_def, metis append.assoc)

lemma add_synonyms_distinct:
  "distinct expansions \<Longrightarrow> distinct (add_synonyms baseQuery word synonyms expansions)"
  by (induction synonyms arbitrary: expansions) (auto simp: Let_def)

lemma expand_words_extends:
  "expand_words baseQuery ws expansions = Inr xs \<Longrightarrow>
   (\<exists>ys. xs = expansions @ ys) \<and> (distinct expansions \<longrightarrow> distinct xs)"
proof (induction ws arbitrary: expansions)
  case Nil
  then show ?case by simp
next
  case (Cons w ws)
  show ?case
  proof (cases "synonymMap_get w")
    case Absent
    with Cons show ?thesis by simp
  next
    case (Own synonyms)
    with Cons.prems have
      "expand_words baseQuery ws (add_synonyms baseQuery w synonyms expansions) = Inr xs"
      by simp
    from Cons.IH[OF this] add_synonyms_extends[of baseQuery w synonyms expansions]
      add_synonyms_distinct[of expansions baseQuery w synonyms]
    show ?thesis by auto
  next
    case Inherited
    with Cons.prems show ?thesis by simp
  qed
qed

lemma expandQuery_base_first:
  "expandQuery q = Inr xs \<Longrightarrow> hd xs = preprocessQuery q \<and> distinct xs"
  using expand_words_extends[of "preprocessQuery q" "split_ws (preprocessQuery q)"
      "[preprocessQuery q]" xs]
  by (auto simp: expandQuery_def Let_def)

lemma expandQuery_data_analysis:
  "expandQuery ''data analysis'' =
     Inr [''data analysis'', ''information analysis'', ''content analysis'', ''facts analysis'',
          ''data examination'', ''data study'', ''data research'']"
  by code_simp

lemma expandQuery_repeated_token:
  "expandQuery ''data data'' =
     Inr [''data data'', ''information data'', ''content data'', ''facts data'']"
  by code_simp

lemma expandQuery_constructor: "expandQuery ''What is a constructor?'' = Inl TypeError"
  by code_simp

text \<open>
  C9 fails on the code. \<^verbatim>\<open>baseQuery.replace(word, synonym)\<close> replaces the first place
  where the text of the word occurs in the query, which need not be the token: for
  \<open>metadata data\<close> the token \<open>data\<close> is in the table, and each variant changes the
  inside of \<open>metadata\<close>.
\<close>

theorem expandQuery_substring:
  "expandQuery ''metadata data'' =
     Inr [''metadata data'', ''metainformation data'', ''metacontent data'',
          ''metafacts data'']"
  by code_simp

section \<open>Properties of the context builder\<close>

lemma array_sort_single: "array_sort cmp [x] = [x]"
  by (simp add: array_sort_def)

lemma buildContext_loop_selected:
  "fst (buildContext_loop maxTokens results (ctx, tokenCount)) =
     ctx @ concat (map piece_text (selected maxTokens results tokenCount))"
  by (induction results arbitrary: ctx tokenCount) (simp_all add: Let_def)

lemma length_slice0_le: "0 \<le> n \<Longrightarrow> int (length (slice0 n xs)) \<le> n"
  by (simp add: slice0_def)

lemma selected_within_budget:
  "tokenCount \<le> maxTokens \<Longrightarrow>
   tokenCount + (\<Sum>p\<leftarrow>selected maxTokens results tokenCount. int (length (piece_tokens p)))
     \<le> maxTokens"
proof (induction results arbitrary: tokenCount)
  case Nil
  then show ?case by simp
next
  case (Cons result rest)
  let ?n = "int (length (split_ws (content (document result))))"
  show ?case
  proof (cases "tokenCount + ?n \<le> maxTokens")
    case True
    then show ?thesis using Cons.IH[of "tokenCount + ?n"] by (simp add: Let_def)
  next
    case False
    then show ?thesis
      using Cons.prems
        length_slice0_le[of "maxTokens - tokenCount" "split_ws (content (document result))"]
      by (simp add: Let_def)
  qed
qed

text \<open>
  What holds of every context: it is the trimmed concatenation of the selected pieces,
  each under its provenance line, and for a budget that is not negative the content
  tokens of the selected pieces (counted as the loop counts them) are at most
  \<open>maxTokens\<close>. The provenance lines and the dots after a fragment are not counted.
\<close>

lemma context_budget:
  "buildContext searchResults q maxTokens =
     (if searchResults = [] then []
      else trim (concat (map piece_text
             (selected maxTokens (array_sort by_similarity searchResults) 0)))) \<and>
   (0 \<le> maxTokens \<longrightarrow>
      (\<Sum>p\<leftarrow>selected maxTokens (array_sort by_similarity searchResults) 0.
          int (length (piece_tokens p))) \<le> maxTokens)"
  using selected_within_budget[of 0 maxTokens "array_sort by_similarity searchResults"]
  by (simp add: buildContext_def buildContext_loop_selected)

subsection \<open>A document that fills the budget\<close>

lemma words_n_Suc: "words_n (Suc n) = CHR ''w'' # CHR '' '' # words_n n"
  by (simp add: words_n_def)

lemma words_n_0: "words_n 0 = ''w''"
  by (simp add: words_n_def)

lemma words_n_first: "\<exists>rest. words_n n = CHR ''w'' # rest"
  by (cases n) (simp_all add: words_n_Suc words_n_0)

lemma words_n_last: "\<exists>front. words_n n = front @ ''w''"
  by (auto simp: words_n_def)

lemma dropWhile_words_n: "dropWhile is_space (words_n n) = words_n n"
  using words_n_first[of n] by (auto simp: is_space_def)

lemma split_ws_words_n: "split_ws (words_n n) = replicate (Suc n) ''w''"
proof (induction n)
  case 0
  show ?case by (simp add: words_n_0 split_ws_def is_space_def)
next
  case (Suc n)
  have "split_on is_space (CHR '' '' # words_n n) = [] # split_on is_space (words_n n)"
    by (simp add: dropWhile_words_n) (simp add: is_space_def)
  then show ?case
    using Suc by (simp add: words_n_Suc split_ws_def) (simp add: is_space_def)
qed

lemma show_int_50: "show_int 50 = ''50''"
  by code_simp

lemma header_result_of_text:
  "header (result_of_text text) = newline @ provenance_50 @ newline"
  by (simp add: header_def result_of_text_def notes_metadata_def show_int_50 provenance_50_def)

lemma trim_context:
  "trim (newline @ provenance_50 @ newline @ words_n n @ newline) =
     provenance_50 @ newline @ words_n n"
proof -
  obtain front where f: "words_n n = front @ ''w''"
    using words_n_last by blast
  show ?thesis
    unfolding f
    by (simp add: trim_def newline_def provenance_50_def dquote_def is_space_def)
qed

lemma buildContext_words_n:
  assumes "int n < maxTokens"
  shows "buildContext [result_of_text (words_n n)] q maxTokens =
           provenance_50 @ newline @ words_n n"
proof -
  have "content (document (result_of_text (words_n n))) = words_n n"
    by (simp add: result_of_text_def)
  then show ?thesis
    using assms
    by (simp add: buildContext_def array_sort_single Let_def split_ws_words_n
        header_result_of_text trim_context)
qed

lemma split_ws_context:
  "split_ws (provenance_50 @ newline @ words_n n) =
     [''---'', ''From'', dquote @ ''notes'' @ dquote, ''(50%'', ''relevant)'', ''---''] @
     replicate (Suc n) ''w''"
proof -
  have "split_on is_space (CHR 0x0A # words_n n) = [] # replicate (Suc n) ''w''"
    using split_ws_words_n[of n]
    by (simp add: dropWhile_words_n split_ws_def) (simp add: is_space_def)
  then show ?thesis
    by (simp add: split_ws_def provenance_50_def dquote_def newline_def)
       (simp add: is_space_def)
qed

text \<open>
  C5 fails on the code. A document of 2000 words fits the default budget of 2000
  tokens, and the context, which starts with the provenance line, has 2006 tokens.
\<close>

theorem context_over_budget:
  "length (split_ws (content (document (result_of_text (words_n 1999))))) = 2000 \<and>
   length (whitespace_tokens (buildContext [result_of_text (words_n 1999)] ''words'' 2000))
     = 2006"
proof
  show "length (split_ws (content (document (result_of_text (words_n 1999))))) = 2000"
    by (simp add: result_of_text_def split_ws_words_n)
  have "buildContext [result_of_text (words_n 1999)] ''words'' 2000 =
          provenance_50 @ newline @ words_n 1999"
    by (rule buildContext_words_n) simp
  then show "length (whitespace_tokens
       (buildContext [result_of_text (words_n 1999)] ''words'' 2000)) = 2006"
    by (simp add: whitespace_tokens_def split_ws_context dquote_def)
qed

subsection \<open>The fragment\<close>

text \<open>
  C8, as amended. At a document that does not fit, the loop stops, whatever follows it.
  It appends a fragment, the leading \<open>maxTokens - tokenCount\<close> tokens of the document,
  when more than 50 tokens of the budget remain, and nothing when 50 or fewer remain.
  The second part is the same for \<^verbatim>\<open>buildContext\<close> on a single result.
\<close>

theorem partial_fragment:
  "(\<not> tokenCount + int (length (split_ws (content (document result)))) \<le> maxTokens \<longrightarrow>
      buildContext_loop maxTokens (result # rest) (ctx, tokenCount) =
        (if maxTokens - tokenCount > 50
         then (ctx @ header result @
                 join '' '' (take (nat (maxTokens - tokenCount))
                               (split_ws (content (document result)))) @ ''...'' @ newline,
               tokenCount)
         else (ctx, tokenCount))) \<and>
   (\<not> int (length (split_ws (content (document result)))) \<le> maxTokens \<longrightarrow>
      buildContext [result] q maxTokens =
        (if maxTokens > 50
         then trim (header result @
                 join '' '' (take (nat maxTokens) (split_ws (content (document result)))) @
                 ''...'' @ newline)
         else []))"
  by (simp add: buildContext_def array_sort_single Let_def slice0_def trim_def)

lemma length_words_51: "length (split_ws words_51) = 51"
  by code_simp

lemma length_words_52: "length (split_ws (words_51 @ '' w52'')) = 52"
  by code_simp

text \<open>
  C8 as stated fails when exactly 50 tokens remain: a document of 51 tokens does not
  fit a budget of 50, and no fragment is appended.
\<close>

theorem partial_fragment_at_50:
  "length (split_ws (content (document (result_of_text words_51)))) = 51 \<and>
   buildContext [result_of_text words_51] ''words'' 50 = []"
  by (simp add: result_of_text_def length_words_51 buildContext_def array_sort_single
      trim_def)

theorem partial_fragment_witness:
  "\<not> int (length (split_ws (content (document (result_of_text (words_51 @ '' w52''))))))
      \<le> 51 \<and>
   buildContext [result_of_text (words_51 @ '' w52'')] ''words'' 51 =
     ''--- From '' @ dquote @ ''notes'' @ dquote @ '' (50% relevant) ---'' @ newline @
     words_51 @ ''...'' \<and>
   buildContext_loop 50 [result_of_text words_51] ([], 0) = ([], 0)"
proof -
  have 1: "\<not> int (length (split_ws (content (document
              (result_of_text (words_51 @ '' w52'')))))) \<le> 51"
    by (simp add: result_of_text_def length_words_52)
  have 2: "\<not> 0 + int (length (split_ws (content (document (result_of_text words_51)))))
              \<le> 50"
    by (simp add: result_of_text_def length_words_51)
  have 3: "trim (header (result_of_text (words_51 @ '' w52'')) @
                 join '' '' (take (nat 51) (split_ws (content (document
                    (result_of_text (words_51 @ '' w52'')))))) @
                 ''...'' @ newline) =
     ''--- From '' @ dquote @ ''notes'' @ dquote @ '' (50% relevant) ---'' @ newline @
     words_51 @ ''...''"
    by code_simp
  show ?thesis
    using 1 2 3
      partial_fragment[of 0 "result_of_text (words_51 @ '' w52'')" 51 "[]" "[]" "''words''"]
      partial_fragment[of 0 "result_of_text words_51" 50 "[]" "[]" "''words''"]
    by simp
qed

end
